theory Spec2Isabelle
  imports Main "HOL-Library.Word"
begin

section \<open>Data model\<close>

text \<open>
  The orders service has three handlers (\<open>internal/api/server/server.go\<close>) and one
  background consumer (\<open>internal/event\<close>). An identifier is a 128-bit UUID; a timestamp
  is the instant returned by \<open>time.Now().UTC()\<close>, counted in nanoseconds.
\<close>

type_synonym uuid = "128 word"
type_synonym time = int

text \<open>One row of the \<open>orders\<close> table: the four columns both SQL statements name.\<close>

record order_row =
  row_id :: uuid
  customer_name :: string
  item :: string
  created_at :: time

text \<open>
  \<open>api.OrderResponse\<close>: the handlers fill it through pointers (\<open>Id: &id\<close>,
  \<open>*resp.CustomerName\<close> in the tests), so every field is optional; \<open>None\<close> is nil.
\<close>

record OrderResponse =
  Id_p :: "uuid option"
  CustomerName_p :: "string option"
  Item_p :: "string option"
  CreatedAt_p :: "time option"

text \<open>\<open>api.CreateOrderJSONRequestBody\<close> after a successful \<open>ShouldBindJSON\<close>.\<close>

record CreateOrderJSONRequestBody =
  req_CustomerName :: string
  req_Item :: string

text \<open>\<open>event.OrderCreated\<close>.\<close>

datatype OrderCreated = OrderCreated (Order: OrderResponse)

text \<open>
  What a storage call can return as \<open>err\<close>: the sentinel \<open>sql.ErrNoRows\<close>, or any other
  error of the driver, carried with its text.
\<close>

datatype sql_error = ErrNoRows | DriverError string

text \<open>
  The value handed to \<open>c.JSON\<close>: an \<open>OrderResponse\<close>, or a \<open>gin.H\<close> whose entries are
  string literals or, in one place, the error value itself.
\<close>

datatype json = JStr string | JErr sql_error

datatype body = OrderJSON OrderResponse | H "(string \<times> json) list"

type_synonym response = "nat \<times> body"

text \<open>The statements sent to storage, recorded in the order they are issued.\<close>

datatype db_call =
    SelectExisting string string time
  | InsertOrder uuid string string time
  | SelectById uuid

datatype worker_status = Running | Stopped

text \<open>
  The state the handlers and the worker share: the table, the trace of statements, the
  detached goroutines that are each waiting to send one event (\<open>senders\<close>), the buffer of
  the channel \<open>eventQueue\<close>, whether the context of the worker has been cancelled, the
  worker's own status and the events it has logged.
\<close>

record server_state =
  orders :: "order_row list"
  db_calls :: "db_call list"
  senders :: "OrderCreated list"
  eventQueue :: "OrderCreated list"
  cancelled :: bool
  worker :: worker_status
  processed :: "OrderCreated list"

text \<open>
  What a request reads from its environment: the clock, the identifier generator, and
  whether the storage call fails for a reason of its own (connection, timeout, cancelled
  request context), with the driver's text.
\<close>

record env =
  now :: time
  new_id :: uuid
  query_fault :: "string option"
  exec_fault :: "string option"

section \<open>Storage\<close>

text \<open>
  The database is PostgreSQL, reached through \<open>database/sql\<close>. It is modelled as the list
  of rows of the one table, in insertion order. The migration that comes with the sources
  declares the table:
  \<^verbatim>\<open>CREATE TABLE orders (id UUID PRIMARY KEY, customer_name TEXT NOT NULL,
    item TEXT NOT NULL, created_at TIMESTAMP WITH TIME ZONE DEFAULT now())\<close>
  A call that fails for a reason of the database's own is the \<open>fault\<close> argument.
\<close>

text \<open>
  A \<open>TIMESTAMP WITH TIME ZONE\<close> keeps microseconds: a timestamp handed to the database,
  for a column or for a comparison with one, is rounded to the nearest microsecond, while
  the clock of the handler counts nanoseconds.
\<close>

definition pg_timestamp :: "time \<Rightarrow> time" where
  "pg_timestamp t = ((t + 500) div 1000) * 1000"

text \<open>\<open>row.Scan\<close> into the four pointer fields of an \<open>OrderResponse\<close>.\<close>

definition scan_row :: "order_row \<Rightarrow> OrderResponse" where
  "scan_row r = \<lparr>Id_p = Some (row_id r), CustomerName_p = Some (customer_name r),
     Item_p = Some (item r), CreatedAt_p = Some (created_at r)\<rparr>"

text \<open>
  \<open>SELECT id, customer_name, item, created_at FROM orders
    WHERE customer_name=$1 AND item=$2 AND created_at=$3 LIMIT 1\<close>
  followed by \<open>Scan\<close>: the first matching row, \<open>sql.ErrNoRows\<close> when there is none.
  The parameter \<open>$3\<close> is compared as a timestamp of the column's type.
\<close>

definition matches_existing :: "string \<Rightarrow> string \<Rightarrow> time \<Rightarrow> order_row \<Rightarrow> bool" where
  "matches_existing cn it t r \<longleftrightarrow> customer_name r = cn \<and> item r = it \<and> created_at r = pg_timestamp t"

definition query_existing ::
  "string option \<Rightarrow> order_row list \<Rightarrow> string \<Rightarrow> string \<Rightarrow> time \<Rightarrow> sql_error + OrderResponse" where
  "query_existing fault tbl cn it t =
     (case fault of
        Some e \<Rightarrow> Inl (DriverError e)
      | None \<Rightarrow>
          (case find (matches_existing cn it t) tbl of
             None \<Rightarrow> Inl ErrNoRows
           | Some r \<Rightarrow> Inr (scan_row r)))"

text \<open>\<open>SELECT id, customer_name, item, created_at FROM orders WHERE id = $1\<close> and \<open>Scan\<close>.\<close>

definition query_by_id :: "string option \<Rightarrow> order_row list \<Rightarrow> uuid \<Rightarrow> sql_error + OrderResponse" where
  "query_by_id fault tbl i =
     (case fault of
        Some e \<Rightarrow> Inl (DriverError e)
      | None \<Rightarrow>
          (case find (\<lambda>r. row_id r = i) tbl of
             None \<Rightarrow> Inl ErrNoRows
           | Some r \<Rightarrow> Inr (scan_row r)))"

text \<open>
  \<open>INSERT INTO orders (id, customer_name, item, created_at) VALUES ($1, $2, $3, $4)\<close>.
  \<open>id\<close> is the primary key, so an insert whose \<open>id\<close> is already stored is rejected;
  \<open>created_at\<close> is stored at the resolution of its column.
\<close>

definition exec_insert :: "string option \<Rightarrow> order_row list \<Rightarrow> order_row \<Rightarrow> sql_error + order_row list" where
  "exec_insert fault tbl r =
     (case fault of
        Some e \<Rightarrow> Inl (DriverError e)
      | None \<Rightarrow>
          if row_id r \<in> set (map row_id tbl)
          then Inl (DriverError ''duplicate key value violates unique constraint'')
          else Inr (tbl @ [r\<lparr>created_at := pg_timestamp (created_at r)\<rparr>]))"

section \<open>Handlers\<close>

text \<open>\<open>HealthCheck\<close> handles \<open>GET /healthz\<close>.\<close>

definition HealthCheck :: "env \<Rightarrow> server_state \<Rightarrow> server_state \<times> response" where
  "HealthCheck e s = (s, (200, H [(''status'', JStr ''ok'')]))"

text \<open>
  \<open>CreateOrder\<close> handles \<open>POST /orders\<close>. The second argument is the outcome of
  \<open>c.ShouldBindJSON(&req)\<close>: the binding error, or the bound request. The clock is read
  after binding; the identifier is generated only on the insert path; the event is sent
  from a goroutine of its own, which the handler starts and does not wait for.
\<close>

definition CreateOrder ::
  "env \<Rightarrow> string + CreateOrderJSONRequestBody \<Rightarrow> server_state \<Rightarrow> server_state \<times> response" where
  "CreateOrder e bind s =
     (case bind of
        Inl err \<Rightarrow> (s, (400, H [(''error'', JStr ''Invalid input'')]))
      | Inr req \<Rightarrow>
          (let createdAt = now e;
               s1 = s\<lparr>db_calls := db_calls s @
                      [SelectExisting (req_CustomerName req) (req_Item req) createdAt]\<rparr>
           in case query_existing (query_fault e) (orders s)
                     (req_CustomerName req) (req_Item req) createdAt of
                Inr existingOrder \<Rightarrow> (s1, (200, OrderJSON existingOrder))
              | Inl ErrNoRows \<Rightarrow>
                  (let id = new_id e;
                       s2 = s1\<lparr>db_calls := db_calls s1 @
                              [InsertOrder id (req_CustomerName req) (req_Item req) createdAt]\<rparr>
                   in case exec_insert (exec_fault e) (orders s)
                             \<lparr>row_id = id, customer_name = req_CustomerName req,
                              item = req_Item req, created_at = createdAt\<rparr> of
                        Inl err \<Rightarrow>
                          (s2, (500, H [(''error'', JErr err),
                                        (''msg'', JStr ''Failed to create order'')]))
                      | Inr tbl \<Rightarrow>
                          (let resp = \<lparr>Id_p = Some id,
                                       CustomerName_p = Some (req_CustomerName req),
                                       Item_p = Some (req_Item req),
                                       CreatedAt_p = Some createdAt\<rparr>
                           in (s2\<lparr>orders := tbl,
                                  senders := senders s2 @ [OrderCreated resp]\<rparr>,
                               (201, OrderJSON resp))))
              | Inl (DriverError err) \<Rightarrow>
                  (s1, (500, H [(''error'', JStr ''Internal server error'')]))))"

text \<open>\<open>GetOrderById\<close> handles \<open>GET /orders/{id}\<close>.\<close>

definition GetOrderById :: "env \<Rightarrow> uuid \<Rightarrow> server_state \<Rightarrow> server_state \<times> response" where
  "GetOrderById e i s =
     (let s1 = s\<lparr>db_calls := db_calls s @ [SelectById i]\<rparr>
      in case query_by_id (query_fault e) (orders s) i of
           Inl ErrNoRows \<Rightarrow> (s1, (404, H [(''error'', JStr ''Order not found'')]))
         | Inl (DriverError err) \<Rightarrow> (s1, (500, H [(''error'', JStr ''Failed to fetch order'')]))
         | Inr order \<Rightarrow> (s1, (200, OrderJSON order)))"

section \<open>Notification relay\<close>

text \<open>\<open>make(chan event.OrderCreated, 100)\<close> in \<open>cmd/orders/main.go\<close>.\<close>

definition queue_cap :: nat where
  "queue_cap = 100"

text \<open>
  \<open>StartEventWorker\<close> starts the goroutine that runs the loop
  \<^verbatim>\<open>for { select { case e := <-e.eventQueue: log(e)  case <-ctx.Done(): return } }\<close>
\<close>

definition StartEventWorker :: "server_state \<Rightarrow> server_state" where
  "StartEventWorker s = s\<lparr>worker := Running\<rparr>"

text \<open>
  One iteration of that loop. \<open>select\<close> runs one of the cases that can proceed; when
  both can, Go picks either. The first argument is the case picked; the result is \<open>None\<close>
  when that case cannot proceed, or when the loop has returned.
\<close>

datatype select_case = RecvEvent | CtxDone

definition worker_iter :: "select_case \<Rightarrow> server_state \<Rightarrow> server_state option" where
  "worker_iter c s =
     (if worker s = Stopped then None
      else case c of
        RecvEvent \<Rightarrow>
          (case eventQueue s of
             [] \<Rightarrow> None
           | ev # q \<Rightarrow> Some (s\<lparr>eventQueue := q, processed := processed s @ [ev]\<rparr>))
      | CtxDone \<Rightarrow>
          (if cancelled s then Some (s\<lparr>worker := Stopped\<rparr>) else None))"

text \<open>
  The goroutine started by \<open>CreateOrder\<close>, \<open>s.eventQueue <- event.OrderCreated{Order: resp}\<close>:
  sender number \<open>k\<close> completes its send when the buffer has room, and waits otherwise.
\<close>

definition send_event :: "nat \<Rightarrow> server_state \<Rightarrow> server_state option" where
  "send_event k s =
     (if k < length (senders s) \<and> length (eventQueue s) < queue_cap
      then Some (s\<lparr>senders := take k (senders s) @ drop (Suc k) (senders s),
                   eventQueue := eventQueue s @ [senders s ! k]\<rparr>)
      else None)"

text \<open>\<open>cancel()\<close> in \<open>main\<close>, after the HTTP server has shut down.\<close>

definition cancel_ctx :: "server_state \<Rightarrow> server_state" where
  "cancel_ctx s = s\<lparr>cancelled := True\<rparr>"

text \<open>
  An interleaving of the goroutines that remain once no request is being served: the
  worker, the senders, and \<open>main\<close> cancelling the context.
\<close>

datatype action = WorkerSelect select_case | SenderSend nat | Cancel

fun step :: "action \<Rightarrow> server_state \<Rightarrow> server_state option" where
  "step (WorkerSelect c) s = worker_iter c s"
| "step (SenderSend k) s = send_event k s"
| "step Cancel s = Some (cancel_ctx s)"

fun run :: "action list \<Rightarrow> server_state \<Rightarrow> server_state option" where
  "run [] s = Some s"
| "run (a # as) s = (case step a s of None \<Rightarrow> None | Some s' \<Rightarrow> run as s')"

fun is_worker_action :: "action \<Rightarrow> bool" where
  "is_worker_action (WorkerSelect c) = True"
| "is_worker_action a = False"

section \<open>Specification vocabulary\<close>


text \<open>
  What the worker can still do: one iteration for each event in the buffer or held by a
  waiting sender, and the iteration that returns.
\<close>

definition remaining_work :: "server_state \<Rightarrow> nat" where
  "remaining_work s =
     length (eventQueue s) + length (senders s) + (if worker s = Running then 1 else 0)"

section \<open>Example data\<close>

definition env0 :: env where
  "env0 = \<lparr>now = 1000, new_id = 7, query_fault = None, exec_fault = None\<rparr>"

definition env1 :: env where
  "env1 = \<lparr>now = 1000, new_id = 8, query_fault = None, exec_fault = None\<rparr>"

text \<open>A clock reading that is not a whole number of microseconds, read by two requests.\<close>

definition env_ns :: env where
  "env_ns = \<lparr>now = 1001, new_id = 7, query_fault = None, exec_fault = None\<rparr>"

definition env_ns2 :: env where
  "env_ns2 = \<lparr>now = 1001, new_id = 8, query_fault = None, exec_fault = None\<rparr>"

definition env_query_fails :: env where
  "env_query_fails = env0\<lparr>query_fault := Some ''dial tcp: connection refused''\<rparr>"

definition env_insert_fails :: env where
  "env_insert_fails = env0\<lparr>exec_fault := Some ''pq: relation orders does not exist''\<rparr>"

definition req0 :: CreateOrderJSONRequestBody where
  "req0 = \<lparr>req_CustomerName = ''John Doe'', req_Item = ''Book''\<rparr>"

definition row0 :: order_row where
  "row0 = \<lparr>row_id = 7, customer_name = ''John Doe'', item = ''Book'', created_at = 1000\<rparr>"

definition row_other :: order_row where
  "row_other = \<lparr>row_id = 3, customer_name = ''Jane Roe'', item = ''Pen'', created_at = 5000\<rparr>"

definition ev0 :: OrderCreated where
  "ev0 = OrderCreated (scan_row row0)"


text \<open>The order of the 201 response to \<open>req0\<close> under \<open>env_ns\<close>.\<close>

definition resp_ns :: OrderResponse where
  "resp_ns = \<lparr>Id_p = Some 7, CustomerName_p = Some ''John Doe'', Item_p = Some ''Book'',
     CreatedAt_p = Some 1001\<rparr>"

definition s0 :: server_state where
  "s0 = \<lparr>orders = [], db_calls = [], senders = [], eventQueue = [],
          cancelled = False, worker = Running, processed = []\<rparr>"

text \<open>The state after \<open>CreateOrder\<close> has created \<open>row0\<close> in \<open>s0\<close>.\<close>

definition s_created :: server_state where
  "s_created = s0\<lparr>orders := [row0],
     db_calls := [SelectExisting ''John Doe'' ''Book'' 1000,
                  InsertOrder 7 ''John Doe'' ''Book'' 1000],
     senders := [ev0]\<rparr>"

text \<open>The same under \<open>env_ns\<close>: the row is stored with whole microseconds.\<close>

definition s_created_ns :: server_state where
  "s_created_ns = s0\<lparr>orders := [row0],
     db_calls := [SelectExisting ''John Doe'' ''Book'' 1001,
                  InsertOrder 7 ''John Doe'' ''Book'' 1001],
     senders := [OrderCreated resp_ns]\<rparr>"

text \<open>Two stored rows; the second is the one with the content of \<open>req0\<close>.\<close>

definition s_two :: server_state where
  "s_two = s0\<lparr>orders := [row_other, row0]\<rparr>"


text \<open>The context is cancelled while one event is in the buffer.\<close>

definition s_cancelled :: server_state where
  "s_cancelled = cancel_ctx ((StartEventWorker s0)\<lparr>eventQueue := [ev0]\<rparr>)"

definition s_stopped :: server_state where
  "s_stopped = s_cancelled\<lparr>worker := Stopped\<rparr>"

section \<open>Auxiliary facts\<close>

lemma find_snoc:
  "find P (xs @ [x]) =
     (case find P xs of Some y \<Rightarrow> Some y | None \<Rightarrow> if P x then Some x else None)"
  by (induction xs) auto

lemma find_holds: "find P xs = Some x \<Longrightarrow> P x \<and> x \<in> set xs"
  by (induction xs) (auto split: if_splits)

lemma find_None_iff_set: "find P xs = None \<longleftrightarrow> (\<forall>x\<in>set xs. \<not> P x)"
  by (induction xs) auto

lemma find_by_id_distinct:
  "distinct (map row_id tbl) \<Longrightarrow> r \<in> set tbl \<Longrightarrow> find (\<lambda>x. row_id x = row_id r) tbl = Some r"
  by (induction tbl) (auto simp: rev_image_eqI)


text \<open>Rounding a rounded timestamp changes nothing.\<close>

lemma pg_timestamp_idem: "pg_timestamp (pg_timestamp t) = pg_timestamp t"
  by (simp add: pg_timestamp_def)

lemmas handler_splits = sum.splits sql_error.splits option.splits if_splits

text \<open>
  A successful \<open>CreateOrder\<close> answers with the order of a row that is then in the table,
  up to the resolution of the stored timestamp.
\<close>

lemma CreateOrder_stored:
  "CreateOrder e (Inr req) s = (s1, (st, OrderJSON ord)) \<Longrightarrow>
     \<exists>row\<in>set (orders s1).
        Id_p ord = Some (row_id row) \<and> CustomerName_p ord = Some (customer_name row) \<and>
        Item_p ord = Some (item row) \<and>
        (\<exists>t. CreatedAt_p ord = Some t \<and> created_at row = pg_timestamp t)"
  by (auto simp: CreateOrder_def Let_def query_existing_def exec_insert_def scan_row_def
        matches_existing_def pg_timestamp_idem
        split: handler_splits dest!: find_holds)

text \<open>Rows are never removed or changed, and identifiers stay pairwise distinct.\<close>

lemma CreateOrder_keeps_rows:
  "CreateOrder e bind s = (s', r) \<Longrightarrow> distinct (map row_id (orders s)) \<Longrightarrow>
     set (orders s) \<subseteq> set (orders s') \<and> distinct (map row_id (orders s'))"
  by (auto simp: CreateOrder_def Let_def exec_insert_def split: handler_splits)

lemma not_Stopped: "(w \<noteq> Stopped) = (w = Running)"
  by (cases w) auto

lemma step_remaining_work:
  "step a s = Some s' \<Longrightarrow>
     (if is_worker_action a then 1 else 0) + remaining_work s' = remaining_work s"
  by (cases a)
     (auto simp: worker_iter_def send_event_def cancel_ctx_def remaining_work_def not_Stopped
        split: if_splits select_case.splits list.splits)

lemma run_remaining_work:
  "run as s = Some s' \<Longrightarrow>
     length (filter is_worker_action as) + remaining_work s' = remaining_work s"
proof (induction as arbitrary: s)
  case Nil
  then show ?case by simp
next
  case (Cons a as)
  then obtain s1 where s1: "step a s = Some s1" "run as s1 = Some s'"
    by (auto split: option.splits)
  from Cons.IH [OF s1(2)] step_remaining_work [OF s1(1)] show ?case by auto
qed

lemma step_Stopped:
  "step a s = Some s' \<Longrightarrow> worker s = Stopped \<Longrightarrow>
     worker s' = Stopped \<and> processed s' = processed s"
  by (cases a) (auto simp: worker_iter_def send_event_def cancel_ctx_def split: if_splits)

lemma run_Stopped:
  "run as s = Some s' \<Longrightarrow> worker s = Stopped \<Longrightarrow>
     worker s' = Stopped \<and> processed s' = processed s"
proof (induction as arbitrary: s)
  case Nil
  then show ?case by simp
next
  case (Cons a as)
  then obtain s1 where s1: "step a s = Some s1" "run as s1 = Some s'"
    by (auto split: option.splits)
  from step_Stopped [OF s1(1) Cons.prems(2)] Cons.IH [OF s1(2)] show ?case by simp
qed

lemma step_cancelled: "step a s = Some s' \<Longrightarrow> cancelled s \<Longrightarrow> cancelled s'"
  by (cases a)
     (auto simp: worker_iter_def send_event_def cancel_ctx_def
        split: if_splits select_case.splits list.splits)

lemma run_cancelled: "run as s = Some s' \<Longrightarrow> cancelled s \<Longrightarrow> cancelled s'"
proof (induction as arbitrary: s)
  case Nil
  then show ?case by simp
next
  case (Cons a as)
  then obtain s1 where s1: "step a s = Some s1" "run as s1 = Some s'"
    by (auto split: option.splits)
  from Cons.IH [OF s1(2)] step_cancelled [OF s1(1) Cons.prems(2)] show ?case by simp
qed

section \<open>Order creation\<close>

text \<open>
  C1. CreateOrder is called twice with the same customer name and item. The first call
  answers with an order; the duplicate check of the second call runs on the state the
  first call left, reads the same \<open>createdAt\<close> from the clock, and is not failed by
  storage. Then the second call answers 200 with an order that carries the id of the
  first call's order, and the second call sends no statement but its \<open>SELECT\<close>: it
  inserts nothing.
\<close>

theorem CreateOrder_twice_same_id:
  assumes "CreateOrder e1 (Inr req) s = (s1, (st1, OrderJSON ord1))"
    and "now e2 = now e1" and "query_fault e2 = None"
  shows "\<exists>ord2. CreateOrder e2 (Inr req) s1 =
           (s1\<lparr>db_calls := db_calls s1 @
                [SelectExisting (req_CustomerName req) (req_Item req) (now e2)]\<rparr>,
            (200, OrderJSON ord2)) \<and>
           Id_p ord2 = Id_p ord1 \<and> Id_p ord1 \<noteq> None"
  using assms
  by (auto simp: CreateOrder_def Let_def query_existing_def exec_insert_def find_snoc
        scan_row_def matches_existing_def split: handler_splits)

theorem CreateOrder_twice_same_id_witness:
  "CreateOrder env_ns (Inr req0) s0 = (s_created_ns, (201, OrderJSON resp_ns)) \<and>
   now env_ns2 = now env_ns \<and> query_fault env_ns2 = None \<and> new_id env_ns2 \<noteq> new_id env_ns \<and>
   snd (CreateOrder env_ns2 (Inr req0) s_created_ns) =
     (200, OrderJSON \<lparr>Id_p = Some 7, CustomerName_p = Some ''John Doe'',
                      Item_p = Some ''Book'', CreatedAt_p = Some 1000\<rparr>) \<and>
   Id_p resp_ns = Some 7"
proof -
  have h1: "CreateOrder env_ns (Inr req0) s0 = (s_created_ns, (201, OrderJSON resp_ns))"
    by (simp add: CreateOrder_def Let_def query_existing_def exec_insert_def pg_timestamp_def
          env_ns_def req0_def s0_def s_created_ns_def row0_def resp_ns_def)
  have h2: "now env_ns2 = now env_ns" by (simp add: env_ns_def env_ns2_def)
  have h3: "query_fault env_ns2 = None" by (simp add: env_ns2_def)
  have h4: "snd (CreateOrder env_ns2 (Inr req0) s_created_ns) =
     (200, OrderJSON \<lparr>Id_p = Some 7, CustomerName_p = Some ''John Doe'',
                      Item_p = Some ''Book'', CreatedAt_p = Some 1000\<rparr>)"
    by (simp add: CreateOrder_def Let_def query_existing_def matches_existing_def scan_row_def
          pg_timestamp_def env_ns2_def req0_def s0_def s_created_ns_def row0_def)
  from CreateOrder_twice_same_id [OF h1 h2 h3] h1 h2 h3 h4 show ?thesis
    by (simp add: resp_ns_def env_ns_def env_ns2_def)
qed

text \<open>
  C2, at an input where the claim fails: the table is empty, the duplicate check reports
  no row, and the \<open>INSERT\<close> fails with a driver error. The 500 response carries the
  error value of the driver under the key \<open>error\<close>, beside the fixed message; the two
  other storage-failure responses of the handlers carry a fixed string only.
\<close>

theorem CreateOrder_insert_failure_body:
  "CreateOrder env_insert_fails (Inr req0) s0 =
     (s0\<lparr>db_calls := [SelectExisting ''John Doe'' ''Book'' 1000,
                       InsertOrder 7 ''John Doe'' ''Book'' 1000]\<rparr>,
      (500, H [(''error'', JErr (DriverError ''pq: relation orders does not exist'')),
               (''msg'', JStr ''Failed to create order'')]))"
  by (simp add: CreateOrder_def env_insert_fails_def env0_def req0_def s0_def Let_def
        query_existing_def exec_insert_def)






text \<open>
  C8. Whenever CreateOrder answers with an order, on the created path (201) as on the
  existing path (200), the customer name and the item of that order are the strings of
  the request, as they were bound.
\<close>

theorem CreateOrder_echoes_input:
  "CreateOrder e (Inr req) s = (s', (st, OrderJSON ord)) \<Longrightarrow>
     CustomerName_p ord = Some (req_CustomerName req) \<and> Item_p ord = Some (req_Item req) \<and>
     (st = 200 \<or> st = 201)"
  by (auto simp: CreateOrder_def Let_def query_existing_def scan_row_def matches_existing_def
        split: handler_splits dest!: find_holds)

theorem CreateOrder_echoes_input_witness:
  "CreateOrder env0 (Inr req0) s0 = (s_created, (201, OrderJSON (scan_row row0))) \<and>
   CustomerName_p (scan_row row0) = Some ''John Doe'' \<and>
   Item_p (scan_row row0) = Some ''Book''"
proof -
  have h1: "CreateOrder env0 (Inr req0) s0 = (s_created, (201, OrderJSON (scan_row row0)))"
    by (simp add: CreateOrder_def Let_def query_existing_def exec_insert_def scan_row_def
          pg_timestamp_def env0_def req0_def s0_def s_created_def row0_def ev0_def)
  from CreateOrder_echoes_input [OF h1] h1 show ?thesis by (simp add: req0_def)
qed

section \<open>Order lookup\<close>

text \<open>
  C6. GetOrderById changes nothing but the trace of statements: the table, the waiting
  senders, the queue and the worker are as before. It answers 404 exactly when storage
  reports \<open>sql.ErrNoRows\<close>, 500 with a fixed message on any other storage error, and
  otherwise 200 with the full order of a stored row with that id: the id, the customer
  name, the item and the \<open>created_at\<close> of that row. In particular an id that no stored
  row carries is answered 404 when storage does not fail.
\<close>

theorem GetOrderById_outcomes:
  assumes "GetOrderById e i s = (s', r)"
  shows "s' = s\<lparr>db_calls := db_calls s @ [SelectById i]\<rparr> \<and>
    (fst r = 404 \<longleftrightarrow> query_by_id (query_fault e) (orders s) i = Inl ErrNoRows) \<and>
    (query_by_id (query_fault e) (orders s) i = Inl ErrNoRows \<longrightarrow>
       r = (404, H [(''error'', JStr ''Order not found'')])) \<and>
    (\<forall>msg. query_by_id (query_fault e) (orders s) i = Inl (DriverError msg) \<longrightarrow>
       r = (500, H [(''error'', JStr ''Failed to fetch order'')])) \<and>
    (\<forall>ord. query_by_id (query_fault e) (orders s) i = Inr ord \<longrightarrow>
       r = (200, OrderJSON ord) \<and>
       (\<exists>row\<in>set (orders s). row_id row = i \<and>
          ord = \<lparr>Id_p = Some i, CustomerName_p = Some (customer_name row),
                  Item_p = Some (item row), CreatedAt_p = Some (created_at row)\<rparr>)) \<and>
    (query_fault e = None \<and> i \<notin> row_id ` set (orders s) \<longrightarrow> fst r = 404) \<and>
    (query_fault e = None \<and> i \<in> row_id ` set (orders s) \<longrightarrow> fst r = 200)"
proof -
  have found: "\<exists>row\<in>set (orders s). row_id row = i \<and>
          ord = \<lparr>Id_p = Some i, CustomerName_p = Some (customer_name row),
                  Item_p = Some (item row), CreatedAt_p = Some (created_at row)\<rparr>"
    if "query_by_id (query_fault e) (orders s) i = Inr ord" for ord
  proof -
    from that obtain row where f: "find (\<lambda>r. row_id r = i) (orders s) = Some row"
      and o: "ord = scan_row row"
      by (auto simp: query_by_id_def split: option.splits)
    from find_holds [OF f] o show ?thesis by (auto simp: scan_row_def)
  qed
  have present: "query_by_id (query_fault e) (orders s) i \<noteq> Inl ErrNoRows"
    if "i \<in> row_id ` set (orders s)"
    using that by (auto simp: query_by_id_def find_None_iff_set split: option.splits)
  have absent: "query_by_id (query_fault e) (orders s) i = Inl ErrNoRows"
    if "query_fault e = None" "i \<notin> row_id ` set (orders s)"
  proof -
    from that(2) have "find (\<lambda>r. row_id r = i) (orders s) = None"
      by (auto simp: find_None_iff_set)
    with that(1) show ?thesis by (simp add: query_by_id_def)
  qed
  have nofault: "\<exists>ord. query_by_id (query_fault e) (orders s) i = Inr ord"
    if "query_fault e = None" "i \<in> row_id ` set (orders s)"
  proof -
    from that(2) have "find (\<lambda>r. row_id r = i) (orders s) \<noteq> None"
      by (auto simp: find_None_iff_set)
    with that(1) show ?thesis by (auto simp: query_by_id_def)
  qed
  show ?thesis
  proof (cases "query_by_id (query_fault e) (orders s) i")
    case (Inl err)
    show ?thesis
    proof (cases err)
      case ErrNoRows
      with Inl assms absent nofault show ?thesis
        by (auto simp: GetOrderById_def Let_def)
    next
      case (DriverError msg)
      with Inl assms absent nofault show ?thesis
        by (auto simp: GetOrderById_def Let_def)
    qed
  next
    case (Inr ord)
    with assms found [OF Inr] absent show ?thesis
      by (auto simp: GetOrderById_def Let_def)
  qed
qed

theorem GetOrderById_outcomes_witness:
  "orders s_two = [row_other, row0] \<and>
   query_fault env0 = None \<and> 7 \<in> row_id ` set (orders s_two) \<and>
   GetOrderById env0 7 s_two =
     (s_two\<lparr>db_calls := db_calls s_two @ [SelectById 7]\<rparr>,
      (200, OrderJSON \<lparr>Id_p = Some 7, CustomerName_p = Some ''John Doe'',
                       Item_p = Some ''Book'', CreatedAt_p = Some 1000\<rparr>)) \<and>
   8 \<notin> row_id ` set (orders s_two) \<and>
   query_by_id (query_fault env0) (orders s_two) 8 = Inl ErrNoRows \<and>
   snd (GetOrderById env0 8 s_two) = (404, H [(''error'', JStr ''Order not found'')]) \<and>
   query_by_id (query_fault env_query_fails) (orders s_two) 7 =
     Inl (DriverError ''dial tcp: connection refused'') \<and>
   snd (GetOrderById env_query_fails 7 s_two) =
     (500, H [(''error'', JStr ''Failed to fetch order'')])"
proof -
  have h1: "query_by_id (query_fault env0) (orders s_two) 7 =
      Inr \<lparr>Id_p = Some 7, CustomerName_p = Some ''John Doe'',
           Item_p = Some ''Book'', CreatedAt_p = Some 1000\<rparr>"
    by (simp add: query_by_id_def scan_row_def env0_def s_two_def s0_def row0_def row_other_def)
  have h2: "query_by_id (query_fault env0) (orders s_two) 8 = Inl ErrNoRows"
    by (simp add: query_by_id_def env0_def s_two_def s0_def row0_def row_other_def)
  have h3: "query_by_id (query_fault env_query_fails) (orders s_two) 7 =
      Inl (DriverError ''dial tcp: connection refused'')"
    by (simp add: query_by_id_def env_query_fails_def env0_def)
  have h4: "query_fault env0 = None" by (simp add: env0_def)
  have h5: "8 \<notin> row_id ` set (orders s_two)"
    by (simp add: s_two_def s0_def row0_def row_other_def)
  have h6: "7 \<in> row_id ` set (orders s_two)"
    by (simp add: s_two_def s0_def row0_def row_other_def)
  have h7: "orders s_two = [row_other, row0]" by (simp add: s_two_def s0_def)
  note found = GetOrderById_outcomes [OF prod.collapse [symmetric], of env0 7 s_two]
  note missing = GetOrderById_outcomes [OF prod.collapse [symmetric], of env0 8 s_two]
  note failed = GetOrderById_outcomes [OF prod.collapse [symmetric], of env_query_fails 7 s_two]
  from found have a1: "fst (GetOrderById env0 7 s_two) =
      s_two\<lparr>db_calls := db_calls s_two @ [SelectById 7]\<rparr>"
    by (rule conjunct1)
  from found h1 have a2: "snd (GetOrderById env0 7 s_two) =
      (200, OrderJSON \<lparr>Id_p = Some 7, CustomerName_p = Some ''John Doe'',
                       Item_p = Some ''Book'', CreatedAt_p = Some 1000\<rparr>)"
    by blast
  from a1 a2 have a: "GetOrderById env0 7 s_two =
     (s_two\<lparr>db_calls := db_calls s_two @ [SelectById 7]\<rparr>,
      (200, OrderJSON \<lparr>Id_p = Some 7, CustomerName_p = Some ''John Doe'',
                       Item_p = Some ''Book'', CreatedAt_p = Some 1000\<rparr>))"
    by (simp only: prod_eq_iff fst_conv snd_conv simp_thms)
  from missing h2 have b: "snd (GetOrderById env0 8 s_two) =
      (404, H [(''error'', JStr ''Order not found'')])"
    by blast
  from failed h3 have c: "snd (GetOrderById env_query_fails 7 s_two) =
      (500, H [(''error'', JStr ''Failed to fetch order'')])"
    by blast
  from h2 h3 h4 h5 h6 h7 a b c show ?thesis by (intro conjI)
qed

text \<open>
  C7, as the claim states it, at a concrete input: the clock reads 1001 nanoseconds when
  the order is created. The 201 response carries that reading, the row is stored with
  whole microseconds, and the lookup of the id just returned answers with the stored
  timestamp: the \<open>createdAt\<close> of the two responses differ.
\<close>

theorem GetOrderById_createdAt_differs:
  "CreateOrder env_ns (Inr req0) s0 = (s_created_ns, (201, OrderJSON resp_ns)) \<and>
   Id_p resp_ns = Some 7 \<and> CreatedAt_p resp_ns = Some 1001 \<and>
   snd (GetOrderById env0 7 s_created_ns) =
     (200, OrderJSON \<lparr>Id_p = Some 7, CustomerName_p = Some ''John Doe'',
                      Item_p = Some ''Book'', CreatedAt_p = Some 1000\<rparr>)"
  by (simp add: CreateOrder_def GetOrderById_def Let_def query_existing_def query_by_id_def
        exec_insert_def scan_row_def pg_timestamp_def env_ns_def env0_def req0_def s0_def
        s_created_ns_def row0_def resp_ns_def)

text \<open>
  C7, amended. CreateOrder has answered with an order whose id is \<open>i\<close> (created or
  existing). In any later state that still holds the rows of the state CreateOrder left,
  with pairwise distinct ids (\<open>id\<close> is the primary key, and the handlers only ever add
  rows), a GetOrderById for \<open>i\<close> that storage does not fail answers 200 with an order
  whose id, customer name and item are those returned at creation, and whose \<open>createdAt\<close>
  is the one returned at creation rounded to the microsecond: the same value whenever the
  one returned at creation has whole microseconds.
\<close>

theorem GetOrderById_after_CreateOrder:
  assumes "CreateOrder e (Inr req) s = (s1, (st, OrderJSON ord))"
    and "Id_p ord = Some i"
    and "set (orders s1) \<subseteq> set (orders s2)"
    and "distinct (map row_id (orders s2))"
    and "query_fault e' = None"
  shows "\<exists>ord'. snd (GetOrderById e' i s2) = (200, OrderJSON ord') \<and>
           Id_p ord' = Id_p ord \<and> CustomerName_p ord' = CustomerName_p ord \<and>
           Item_p ord' = Item_p ord \<and>
           CreatedAt_p ord' = map_option pg_timestamp (CreatedAt_p ord) \<and>
           (\<forall>t. CreatedAt_p ord = Some t \<and> pg_timestamp t = t \<longrightarrow> ord' = ord)"
proof -
  from assms(1) obtain row t where row: "row \<in> set (orders s1)"
      "Id_p ord = Some (row_id row)" "CustomerName_p ord = Some (customer_name row)"
      "Item_p ord = Some (item row)" "CreatedAt_p ord = Some t"
      "created_at row = pg_timestamp t"
    using CreateOrder_stored by blast
  with assms(2) have "row_id row = i" by simp
  moreover from row(1) assms(3) have "row \<in> set (orders s2)" by auto
  ultimately have "find (\<lambda>x. row_id x = i) (orders s2) = Some row"
    using find_by_id_distinct [OF assms(4)] by blast
  then have "snd (GetOrderById e' i s2) = (200, OrderJSON (scan_row row))"
    using assms(5) by (simp add: GetOrderById_def Let_def query_by_id_def)
  with row show ?thesis by (auto simp: scan_row_def)
qed

theorem GetOrderById_after_CreateOrder_witness:
  "CreateOrder env_ns (Inr req0) s0 = (s_created_ns, (201, OrderJSON resp_ns)) \<and>
   Id_p resp_ns = Some 7 \<and>
   set (orders s_created_ns) \<subseteq> set (orders s_created_ns) \<and>
   distinct (map row_id (orders s_created_ns)) \<and>
   query_fault env0 = None \<and>
   snd (GetOrderById env0 7 s_created_ns) =
     (200, OrderJSON \<lparr>Id_p = Some 7, CustomerName_p = Some ''John Doe'',
                      Item_p = Some ''Book'', CreatedAt_p = Some 1000\<rparr>) \<and>
   CreatedAt_p resp_ns = Some 1001 \<and> pg_timestamp 1001 = 1000 \<and>
   CreateOrder env0 (Inr req0) s0 = (s_created, (201, OrderJSON (scan_row row0))) \<and>
   CreatedAt_p (scan_row row0) = Some 1000 \<and> pg_timestamp 1000 = 1000 \<and>
   snd (GetOrderById env0 7 s_created) = (200, OrderJSON (scan_row row0))"
proof -
  have h1: "CreateOrder env_ns (Inr req0) s0 = (s_created_ns, (201, OrderJSON resp_ns))"
    by (simp add: CreateOrder_def Let_def query_existing_def exec_insert_def pg_timestamp_def
          env_ns_def req0_def s0_def s_created_ns_def row0_def resp_ns_def)
  have h2: "Id_p resp_ns = Some 7 \<and> CreatedAt_p resp_ns = Some 1001"
    by (simp add: resp_ns_def)
  have h3: "set (orders s_created_ns) \<subseteq> set (orders s_created_ns)" by simp
  have h4: "distinct (map row_id (orders s_created_ns))"
    by (simp add: s_created_ns_def s0_def)
  have h5: "query_fault env0 = None" by (simp add: env0_def)
  have h6: "snd (GetOrderById env0 7 s_created_ns) =
     (200, OrderJSON \<lparr>Id_p = Some 7, CustomerName_p = Some ''John Doe'',
                      Item_p = Some ''Book'', CreatedAt_p = Some 1000\<rparr>)"
    by (simp add: GetOrderById_def Let_def query_by_id_def scan_row_def env0_def
          s_created_ns_def s0_def row0_def)
  have k1: "CreateOrder env0 (Inr req0) s0 = (s_created, (201, OrderJSON (scan_row row0)))"
    by (simp add: CreateOrder_def Let_def query_existing_def exec_insert_def scan_row_def
          pg_timestamp_def env0_def req0_def s0_def s_created_def row0_def ev0_def)
  have k2: "Id_p (scan_row row0) = Some 7 \<and> CreatedAt_p (scan_row row0) = Some 1000"
    by (simp add: scan_row_def row0_def)
  have k3: "set (orders s_created) \<subseteq> set (orders s_created) \<and>
      distinct (map row_id (orders s_created))"
    by (simp add: s_created_def s0_def)
  have k4: "pg_timestamp 1001 = 1000 \<and> pg_timestamp 1000 = 1000"
    by (simp add: pg_timestamp_def)
  from GetOrderById_after_CreateOrder [OF h1 conjunct1 [OF h2] h3 h4 h5]
       GetOrderById_after_CreateOrder
         [OF k1 conjunct1 [OF k2] conjunct1 [OF k3] conjunct2 [OF k3] h5]
       h1 h2 h3 h4 h5 h6 k1 k2 k4
  show ?thesis by auto
qed

section \<open>Shutdown of the relay\<close>

text \<open>
  C5, as the claim states it, at a concrete state: the context is cancelled while one
  event is in the buffer. Both cases of the \<open>select\<close> can proceed, and in the run where
  the receive is picked first the worker dequeues and processes the event after the
  signal, and only then returns, with the queue drained.
\<close>

theorem worker_dequeues_after_cancel:
  "cancelled s_cancelled \<and> worker s_cancelled = Running \<and> eventQueue s_cancelled = [ev0] \<and>
   run [WorkerSelect RecvEvent, WorkerSelect CtxDone] s_cancelled =
     Some (s_cancelled\<lparr>eventQueue := [], worker := Stopped, processed := [ev0]\<rparr>)"
  by (simp add: s_cancelled_def s0_def cancel_ctx_def StartEventWorker_def worker_iter_def)

text \<open>
  C5, amended. Once the context is cancelled it stays cancelled, and while the worker is
  running the returning case of its \<open>select\<close> can proceed: the worker can return at its
  next iteration, leaving the queue as it is (it is not made to drain it). In any
  interleaving of the worker, the waiting senders and the cancellation (no new request
  being served), the worker makes at most one iteration for each event queued or still
  held by a sender, and one more to return. Once it has returned it makes no further
  iteration, and whatever the senders do afterwards, the events it has processed stay the
  same: the events left in the queue, or put there later, are never processed.
\<close>

theorem worker_after_cancel:
  "(cancelled s \<and> worker s = Running \<longrightarrow>
      worker_iter CtxDone s = Some (s\<lparr>worker := Stopped\<rparr>)) \<and>
   (cancelled s \<and> run as s = Some s' \<longrightarrow> cancelled s') \<and>
   (run as s = Some s' \<longrightarrow>
      length (filter is_worker_action as) \<le> length (eventQueue s) + length (senders s) + 1) \<and>
   (worker s = Stopped \<and> run as s = Some s' \<longrightarrow>
      worker s' = Stopped \<and> processed s' = processed s) \<and>
   (worker s = Stopped \<longrightarrow> worker_iter c s = None)"
proof -
  have "run as s = Some s' \<longrightarrow>
      length (filter is_worker_action as) \<le> length (eventQueue s) + length (senders s) + 1"
    using run_remaining_work [of as s s'] by (auto simp: remaining_work_def split: if_splits)
  moreover have "worker s = Stopped \<and> run as s = Some s' \<longrightarrow>
      worker s' = Stopped \<and> processed s' = processed s"
    using run_Stopped by blast
  moreover have "cancelled s \<and> run as s = Some s' \<longrightarrow> cancelled s'"
    using run_cancelled by blast
  ultimately show ?thesis by (simp add: worker_iter_def)
qed

theorem worker_after_cancel_witness:
  "cancelled s_cancelled \<and> worker s_cancelled = Running \<and>
   worker_iter CtxDone s_cancelled = Some s_stopped \<and>
   eventQueue s_stopped = [ev0] \<and>
   run [WorkerSelect CtxDone] s_cancelled = Some s_stopped \<and>
   length (filter is_worker_action [WorkerSelect CtxDone])
     \<le> length (eventQueue s_cancelled) + length (senders s_cancelled) + 1 \<and>
   cancelled s_stopped \<and> worker s_stopped = Stopped \<and>
   run [Cancel] s_stopped = Some s_stopped \<and>
   processed s_stopped = [] \<and>
   worker_iter RecvEvent s_stopped = None"
proof -
  have h1: "cancelled s_cancelled \<and> worker s_cancelled = Running"
    by (simp add: s_cancelled_def s0_def cancel_ctx_def StartEventWorker_def)
  have h2: "run [WorkerSelect CtxDone] s_cancelled = Some s_stopped"
    by (simp add: s_stopped_def s_cancelled_def s0_def cancel_ctx_def StartEventWorker_def
          worker_iter_def)
  have h3: "worker s_stopped = Stopped \<and> eventQueue s_stopped = [ev0] \<and>
      processed s_stopped = []"
    by (simp add: s_stopped_def s_cancelled_def s0_def cancel_ctx_def StartEventWorker_def)
  have h4: "run [Cancel] s_stopped = Some s_stopped"
    by (simp add: s_stopped_def s_cancelled_def s0_def cancel_ctx_def StartEventWorker_def)
  from worker_after_cancel [of s_cancelled "[WorkerSelect CtxDone]" s_stopped RecvEvent]
       worker_after_cancel [of s_stopped "[Cancel]" s_stopped RecvEvent]
       h1 h2 h3 h4
  show ?thesis by (auto simp: s_stopped_def)
qed

section \<open>Liveness and rejected input\<close>

text \<open>
  C9. For every request and every state of the database, HealthCheck answers 200 with the
  body \<open>{"status":"ok"}\<close>. It reads neither storage nor the relay: whatever the
  environment (storage failing or not), the answer is the same and the state is the one
  it was given, with no statement sent to storage.
\<close>

theorem HealthCheck_always_ok:
  "HealthCheck e s = (s, (200, H [(''status'', JStr ''ok'')]))"
  by (simp add: HealthCheck_def)

text \<open>
  C10. When binding the request body fails, CreateOrder answers 400 and returns the state
  unchanged: no statement is sent to storage, no row is inserted, and no event is handed
  to the relay.
\<close>

theorem CreateOrder_bind_failure:
  "CreateOrder e (Inl err) s = (s, (400, H [(''error'', JStr ''Invalid input'')]))"
  by (simp add: CreateOrder_def)

end
